theory Spec2Isabelle
  imports Main "HOL-Library.Extended_Nat" "HOL-Library.Sublist"
begin

section \<open>The schema\<close>

text \<open>
  The six tables of the migration. A \<^verbatim>\<open>uuid\<close> and a \<^verbatim>\<open>timestamptz\<close> are natural numbers;
  a column declared \<^verbatim>\<open>NOT NULL\<close> (or \<^verbatim>\<open>PRIMARY KEY\<close>) has its plain type, so that NULL is
  excluded by the type, and every other column is an option with \<open>None\<close> for NULL.
  A table is the list of its rows, in insertion order. The texts a user types and the
  views trim before storing them (\<^verbatim>\<open>content\<close>, \<^verbatim>\<open>image_url\<close>) are lists of UTF-16 code units,
  as the strings of the views are; the other text columns are only stored and compared.
\<close>

type_synonym uuid = nat
type_synonym timestamptz = nat
type_synonym utf16 = "nat list"

record profile =
  pr_id :: uuid
  pr_username :: string
  pr_full_name :: "string option"
  pr_avatar_url :: "string option"
  pr_bio :: "string option"
  pr_created_at :: "timestamptz option"
  pr_updated_at :: "timestamptz option"

record post =
  po_id :: uuid
  po_user_id :: uuid
  po_content :: utf16
  po_image_url :: "utf16 option"
  po_created_at :: "timestamptz option"
  po_updated_at :: "timestamptz option"

record comment =
  co_id :: uuid
  co_post_id :: uuid
  co_user_id :: uuid
  co_content :: utf16
  co_created_at :: "timestamptz option"

record like =
  li_id :: uuid
  li_post_id :: uuid
  li_user_id :: uuid
  li_created_at :: "timestamptz option"

record follow =
  fo_id :: uuid
  fo_follower_id :: uuid
  fo_following_id :: uuid
  fo_created_at :: "timestamptz option"

record friendship =
  fr_id :: uuid
  fr_user_id_1 :: uuid
  fr_user_id_2 :: uuid
  fr_status :: "string option"
  fr_requested_by :: uuid
  fr_created_at :: "timestamptz option"
  fr_updated_at :: "timestamptz option"

text \<open>The store: \<^verbatim>\<open>auth.users\<close> (only its ids matter here) and the six tables.\<close>

record db =
  auth_users :: "uuid list"
  profiles :: "profile list"
  posts :: "post list"
  comments :: "comment list"
  likes :: "like list"
  follows :: "follow list"
  friendships :: "friendship list"

datatype error = RlsViolation | CheckViolation | UniqueViolation | ForeignKeyViolation

section \<open>Row level security\<close>

text \<open>
  \<^verbatim>\<open>CREATE POLICY name ON table FOR cmd TO role USING (..) WITH CHECK (..)\<close>. The two
  expressions read \<^verbatim>\<open>auth.uid()\<close> (NULL, here \<open>None\<close>, without a session) and the row; a
  clause the statement does not have is \<open>None\<close>.
\<close>

datatype cmd = SELECT | INSERT | UPDATE | DELETE

datatype role = Anon | Authenticated

datatype 'r policy =
  Policy string cmd role "(uuid option \<Rightarrow> 'r \<Rightarrow> bool) option"
    "(uuid option \<Rightarrow> 'r \<Rightarrow> bool) option"

definition profiles_policies :: "profile policy list" where
  "profiles_policies =
    [Policy ''Anyone can view profiles'' SELECT Authenticated (Some (\<lambda>uid r. True)) None,
     Policy ''Users can update own profile'' UPDATE Authenticated
       (Some (\<lambda>uid r. uid = Some (pr_id r))) (Some (\<lambda>uid r. uid = Some (pr_id r))),
     Policy ''Users can insert own profile'' INSERT Authenticated
       None (Some (\<lambda>uid r. uid = Some (pr_id r)))]"

definition posts_policies :: "post policy list" where
  "posts_policies =
    [Policy ''Anyone can view posts'' SELECT Authenticated (Some (\<lambda>uid r. True)) None,
     Policy ''Users can create own posts'' INSERT Authenticated
       None (Some (\<lambda>uid r. uid = Some (po_user_id r))),
     Policy ''Users can update own posts'' UPDATE Authenticated
       (Some (\<lambda>uid r. uid = Some (po_user_id r))) (Some (\<lambda>uid r. uid = Some (po_user_id r))),
     Policy ''Users can delete own posts'' DELETE Authenticated
       (Some (\<lambda>uid r. uid = Some (po_user_id r))) None]"

definition comments_policies :: "comment policy list" where
  "comments_policies =
    [Policy ''Anyone can view comments'' SELECT Authenticated (Some (\<lambda>uid r. True)) None,
     Policy ''Users can create comments'' INSERT Authenticated
       None (Some (\<lambda>uid r. uid = Some (co_user_id r))),
     Policy ''Users can delete own comments'' DELETE Authenticated
       (Some (\<lambda>uid r. uid = Some (co_user_id r))) None]"

definition likes_policies :: "like policy list" where
  "likes_policies =
    [Policy ''Anyone can view likes'' SELECT Authenticated (Some (\<lambda>uid r. True)) None,
     Policy ''Users can create likes'' INSERT Authenticated
       None (Some (\<lambda>uid r. uid = Some (li_user_id r))),
     Policy ''Users can delete own likes'' DELETE Authenticated
       (Some (\<lambda>uid r. uid = Some (li_user_id r))) None]"

definition follows_policies :: "follow policy list" where
  "follows_policies =
    [Policy ''Anyone can view follows'' SELECT Authenticated (Some (\<lambda>uid r. True)) None,
     Policy ''Users can create follows'' INSERT Authenticated
       None (Some (\<lambda>uid r. uid = Some (fo_follower_id r))),
     Policy ''Users can delete own follows'' DELETE Authenticated
       (Some (\<lambda>uid r. uid = Some (fo_follower_id r))) None]"

definition friendships_policies :: "friendship policy list" where
  "friendships_policies =
    [Policy ''Users can view their friendships'' SELECT Authenticated
       (Some (\<lambda>uid r. uid = Some (fr_user_id_1 r) \<or> uid = Some (fr_user_id_2 r))) None,
     Policy ''Users can create friend requests'' INSERT Authenticated
       None (Some (\<lambda>uid r. uid = Some (fr_requested_by r) \<and> (uid = Some (fr_user_id_1 r) \<or> uid = Some (fr_user_id_2 r)))),
     Policy ''Users can update friendship status'' UPDATE Authenticated
       (Some (\<lambda>uid r. uid = Some (fr_user_id_1 r) \<or> uid = Some (fr_user_id_2 r)))
       (Some (\<lambda>uid r. uid = Some (fr_user_id_1 r) \<or> uid = Some (fr_user_id_2 r)))]"

text \<open>
  How the store evaluates the policies of a table on which row level security is enabled
  (all six are). The caller is \<^verbatim>\<open>auth.uid()\<close>: \<open>Some u\<close> for a signed-in user, whose role
  is \<^verbatim>\<open>authenticated\<close>, and \<open>None\<close> (NULL) for an anonymous request. The policies of a
  command are permissive, so one of them has to hold; with no policy for the command and
  the role nothing is permitted. An \<^verbatim>\<open>UPDATE\<close> policy without \<^verbatim>\<open>WITH CHECK\<close> checks the new
  row with its \<^verbatim>\<open>USING\<close> expression.
\<close>

fun role_of :: "uuid option \<Rightarrow> role" where
  "role_of None = Anon"
| "role_of (Some u) = Authenticated"

fun clause_holds :: "(uuid option \<Rightarrow> 'r \<Rightarrow> bool) option \<Rightarrow> uuid option \<Rightarrow> 'r \<Rightarrow> bool" where
  "clause_holds None c r = True"
| "clause_holds (Some f) c r = f c r"

fun policy_using :: "cmd \<Rightarrow> uuid option \<Rightarrow> 'r \<Rightarrow> 'r policy \<Rightarrow> bool" where
  "policy_using k c r (Policy n k' ro us ch) =
     (k' = k \<and> ro = role_of c \<and> clause_holds us c r)"

fun policy_check :: "cmd \<Rightarrow> uuid option \<Rightarrow> 'r \<Rightarrow> 'r policy \<Rightarrow> bool" where
  "policy_check k c r (Policy n k' ro us ch) =
     (k' = k \<and> ro = role_of c \<and>
      (case ch of None \<Rightarrow> clause_holds us c r | Some f \<Rightarrow> f c r))"

definition using_ok :: "'r policy list \<Rightarrow> cmd \<Rightarrow> uuid option \<Rightarrow> 'r \<Rightarrow> bool" where
  "using_ok ps k c r = list_ex (policy_using k c r) ps"

definition check_ok :: "'r policy list \<Rightarrow> cmd \<Rightarrow> uuid option \<Rightarrow> 'r \<Rightarrow> bool" where
  "check_ok ps k c r = list_ex (policy_check k c r) ps"

text \<open>
  The rows a statement with a \<^verbatim>\<open>WHERE\<close> clause \<open>w\<close> reaches: the clause reads the row, so
  the row has to pass the \<^verbatim>\<open>SELECT\<close> policies as well as those of the command. A row that
  does not pass is skipped without an error. The new version of an updated row has to pass
  \<^verbatim>\<open>WITH CHECK\<close> and the \<^verbatim>\<open>SELECT\<close> policies, or the statement fails.
\<close>

definition select_rows :: "'r policy list \<Rightarrow> uuid option \<Rightarrow> 'r list \<Rightarrow> 'r list" where
  "select_rows ps c rows = filter (using_ok ps SELECT c) rows"

definition upd_target :: "'r policy list \<Rightarrow> uuid option \<Rightarrow> ('r \<Rightarrow> bool) \<Rightarrow> 'r \<Rightarrow> bool" where
  "upd_target ps c w r = (w r \<and> using_ok ps SELECT c r \<and> using_ok ps UPDATE c r)"

definition del_target :: "'r policy list \<Rightarrow> uuid option \<Rightarrow> ('r \<Rightarrow> bool) \<Rightarrow> 'r \<Rightarrow> bool" where
  "del_target ps c w r = (w r \<and> using_ok ps SELECT c r \<and> using_ok ps DELETE c r)"

definition upd_new_ok :: "'r policy list \<Rightarrow> uuid option \<Rightarrow> 'r \<Rightarrow> bool" where
  "upd_new_ok ps c r = (check_ok ps UPDATE c r \<and> using_ok ps SELECT c r)"

definition upd_rows :: "'r policy list \<Rightarrow> uuid option \<Rightarrow> ('r \<Rightarrow> bool) \<Rightarrow> ('r \<Rightarrow> 'r) \<Rightarrow> 'r list \<Rightarrow> 'r list" where
  "upd_rows ps c w f rows = map (\<lambda>r. if upd_target ps c w r then f r else r) rows"

definition upd_new :: "'r policy list \<Rightarrow> uuid option \<Rightarrow> ('r \<Rightarrow> bool) \<Rightarrow> ('r \<Rightarrow> 'r) \<Rightarrow> 'r list \<Rightarrow> 'r list" where
  "upd_new ps c w f rows = map f (filter (upd_target ps c w) rows)"

text \<open>A key that an updated row shares with another row of the table after the update.\<close>

definition dup_key :: "('r \<Rightarrow> 'k) \<Rightarrow> 'r list \<Rightarrow> 'r list \<Rightarrow> bool" where
  "dup_key key new tbl = list_ex (\<lambda>r. 1 < length (filter (\<lambda>x. key x = key r) tbl)) new"

section \<open>Constraints\<close>

text \<open>
  The \<^verbatim>\<open>CHECK\<close> constraints (a \<^verbatim>\<open>CHECK\<close> holds on NULL), and for each table the rows its
  foreign keys need: \<^verbatim>\<open>profiles.id\<close> references \<^verbatim>\<open>auth.users\<close>, every \<^verbatim>\<open>user_id\<close>-like column
  references \<^verbatim>\<open>profiles\<close>, \<^verbatim>\<open>post_id\<close> references \<^verbatim>\<open>posts\<close>.
\<close>

definition follows_check :: "follow \<Rightarrow> bool" where
  "follows_check r = (fo_follower_id r \<noteq> fo_following_id r)"

definition friendships_check :: "friendship \<Rightarrow> bool" where
  "friendships_check r =
    ((case fr_status r of None \<Rightarrow> True
      | Some s \<Rightarrow> s \<in> {''pending'', ''accepted'', ''rejected''}) \<and>
     fr_user_id_1 r \<noteq> fr_user_id_2 r)"

definition profiles_fk :: "db \<Rightarrow> profile \<Rightarrow> bool" where
  "profiles_fk d r = (pr_id r \<in> set (auth_users d))"

definition posts_fk :: "db \<Rightarrow> post \<Rightarrow> bool" where
  "posts_fk d r = (po_user_id r \<in> set (map pr_id (profiles d)))"

definition comments_fk :: "db \<Rightarrow> comment \<Rightarrow> bool" where
  "comments_fk d r =
    (co_post_id r \<in> set (map po_id (posts d)) \<and> co_user_id r \<in> set (map pr_id (profiles d)))"

definition likes_fk :: "db \<Rightarrow> like \<Rightarrow> bool" where
  "likes_fk d r =
    (li_post_id r \<in> set (map po_id (posts d)) \<and> li_user_id r \<in> set (map pr_id (profiles d)))"

definition follows_fk :: "db \<Rightarrow> follow \<Rightarrow> bool" where
  "follows_fk d r =
    (fo_follower_id r \<in> set (map pr_id (profiles d)) \<and>
     fo_following_id r \<in> set (map pr_id (profiles d)))"

definition friendships_fk :: "db \<Rightarrow> friendship \<Rightarrow> bool" where
  "friendships_fk d r =
    (fr_user_id_1 r \<in> set (map pr_id (profiles d)) \<and>
     fr_user_id_2 r \<in> set (map pr_id (profiles d)) \<and>
     fr_requested_by r \<in> set (map pr_id (profiles d)))"

text \<open>
  The references into \<^verbatim>\<open>profiles\<close> and into \<^verbatim>\<open>posts\<close>. No foreign key says \<^verbatim>\<open>ON UPDATE\<close>, so
  an update that takes a referenced id away fails: every reference that had its row before
  the update has to have it after.
\<close>

definition profile_refs :: "db \<Rightarrow> uuid list" where
  "profile_refs d =
    map po_user_id (posts d) @ map co_user_id (comments d) @ map li_user_id (likes d) @
    map fo_follower_id (follows d) @ map fo_following_id (follows d) @
    map fr_user_id_1 (friendships d) @ map fr_user_id_2 (friendships d) @
    map fr_requested_by (friendships d)"

definition post_refs :: "db \<Rightarrow> uuid list" where
  "post_refs d = map co_post_id (comments d) @ map li_post_id (likes d)"

definition refs_kept :: "uuid list \<Rightarrow> uuid list \<Rightarrow> uuid list \<Rightarrow> bool" where
  "refs_kept old new refs = list_all (\<lambda>i. i \<in> set new) (filter (\<lambda>i. i \<in> set old) refs)"

text \<open>
  \<^verbatim>\<open>ON DELETE CASCADE\<close>: with the posts of the given ids go their comments and likes; with
  the profiles of the given ids go their posts (and what hangs on those), comments, likes,
  follows in either direction and friendships in any of the three columns; with a user of
  \<^verbatim>\<open>auth.users\<close> goes the profile.
\<close>

definition cascade_posts :: "uuid list \<Rightarrow> db \<Rightarrow> db" where
  "cascade_posts ids d =
    d\<lparr>comments := filter (\<lambda>r. co_post_id r \<notin> set ids) (comments d),
      likes := filter (\<lambda>r. li_post_id r \<notin> set ids) (likes d)\<rparr>"

definition cascade_profiles :: "uuid list \<Rightarrow> db \<Rightarrow> db" where
  "cascade_profiles ids d =
    cascade_posts (map po_id (filter (\<lambda>r. po_user_id r \<in> set ids) (posts d)))
      (d\<lparr>posts := filter (\<lambda>r. po_user_id r \<notin> set ids) (posts d),
         comments := filter (\<lambda>r. co_user_id r \<notin> set ids) (comments d),
         likes := filter (\<lambda>r. li_user_id r \<notin> set ids) (likes d),
         follows := filter (\<lambda>r. \<not> (fo_follower_id r \<in> set ids \<or> fo_following_id r \<in> set ids))
           (follows d),
         friendships := filter (\<lambda>r. \<not> (fr_user_id_1 r \<in> set ids \<or> fr_user_id_2 r \<in> set ids \<or>
           fr_requested_by r \<in> set ids)) (friendships d)\<rparr>)"

section \<open>Statements on the tables\<close>

text \<open>
  What the client can send: for each table an insert of a row, an update and a delete
  with a filter. The filter is a predicate on the row and the update's payload a function
  on it. The values the store fills in (\<^verbatim>\<open>gen_random_uuid()\<close>, \<^verbatim>\<open>now()\<close>, the other
  defaults) are part of the inserted row: whoever builds the row supplies them.

  Each statement is checked in the store's order: the row level security check of the
  new row, the \<^verbatim>\<open>CHECK\<close> constraints, the primary key and \<^verbatim>\<open>UNIQUE\<close> constraints, the foreign
  keys. A statement that fails returns the error and no store: nothing was written.
\<close>

subsection \<open>profiles\<close>

definition insert_profiles :: "uuid option \<Rightarrow> profile \<Rightarrow> db \<Rightarrow> error + db" where
  "insert_profiles c r d =
    (if \<not> check_ok profiles_policies INSERT c r then Inl RlsViolation
     else if pr_id r \<in> set (map pr_id (profiles d)) then Inl UniqueViolation
     else if pr_username r \<in> set (map pr_username (profiles d)) then Inl UniqueViolation
     else if \<not> profiles_fk d r then Inl ForeignKeyViolation
     else Inr (d\<lparr>profiles := profiles d @ [r]\<rparr>))"

definition update_profiles ::
  "uuid option \<Rightarrow> (profile \<Rightarrow> bool) \<Rightarrow> (profile \<Rightarrow> profile) \<Rightarrow> db \<Rightarrow> error + db" where
  "update_profiles c w f d =
    (let new = upd_new profiles_policies c w f (profiles d);
         tbl = upd_rows profiles_policies c w f (profiles d)
     in if \<not> list_all (upd_new_ok profiles_policies c) new then Inl RlsViolation
        else if dup_key pr_id new tbl \<or> dup_key pr_username new tbl then Inl UniqueViolation
        else if \<not> list_all (profiles_fk d) new then Inl ForeignKeyViolation
        else if \<not> refs_kept (map pr_id (profiles d)) (map pr_id tbl) (profile_refs d)
          then Inl ForeignKeyViolation
        else Inr (d\<lparr>profiles := tbl\<rparr>))"

definition delete_profiles :: "uuid option \<Rightarrow> (profile \<Rightarrow> bool) \<Rightarrow> db \<Rightarrow> error + db" where
  "delete_profiles c w d =
    Inr (cascade_profiles (map pr_id (filter (del_target profiles_policies c w) (profiles d)))
      (d\<lparr>profiles := filter (\<lambda>r. \<not> del_target profiles_policies c w r) (profiles d)\<rparr>))"

subsection \<open>posts\<close>

definition insert_posts :: "uuid option \<Rightarrow> post \<Rightarrow> db \<Rightarrow> error + db" where
  "insert_posts c r d =
    (if \<not> check_ok posts_policies INSERT c r then Inl RlsViolation
     else if po_id r \<in> set (map po_id (posts d)) then Inl UniqueViolation
     else if \<not> posts_fk d r then Inl ForeignKeyViolation
     else Inr (d\<lparr>posts := posts d @ [r]\<rparr>))"

definition update_posts ::
  "uuid option \<Rightarrow> (post \<Rightarrow> bool) \<Rightarrow> (post \<Rightarrow> post) \<Rightarrow> db \<Rightarrow> error + db" where
  "update_posts c w f d =
    (let new = upd_new posts_policies c w f (posts d);
         tbl = upd_rows posts_policies c w f (posts d)
     in if \<not> list_all (upd_new_ok posts_policies c) new then Inl RlsViolation
        else if dup_key po_id new tbl then Inl UniqueViolation
        else if \<not> list_all (posts_fk d) new then Inl ForeignKeyViolation
        else if \<not> refs_kept (map po_id (posts d)) (map po_id tbl) (post_refs d)
          then Inl ForeignKeyViolation
        else Inr (d\<lparr>posts := tbl\<rparr>))"

definition delete_posts :: "uuid option \<Rightarrow> (post \<Rightarrow> bool) \<Rightarrow> db \<Rightarrow> error + db" where
  "delete_posts c w d =
    Inr (cascade_posts (map po_id (filter (del_target posts_policies c w) (posts d)))
      (d\<lparr>posts := filter (\<lambda>r. \<not> del_target posts_policies c w r) (posts d)\<rparr>))"

subsection \<open>comments\<close>

definition insert_comments :: "uuid option \<Rightarrow> comment \<Rightarrow> db \<Rightarrow> error + db" where
  "insert_comments c r d =
    (if \<not> check_ok comments_policies INSERT c r then Inl RlsViolation
     else if co_id r \<in> set (map co_id (comments d)) then Inl UniqueViolation
     else if \<not> comments_fk d r then Inl ForeignKeyViolation
     else Inr (d\<lparr>comments := comments d @ [r]\<rparr>))"

definition update_comments ::
  "uuid option \<Rightarrow> (comment \<Rightarrow> bool) \<Rightarrow> (comment \<Rightarrow> comment) \<Rightarrow> db \<Rightarrow> error + db" where
  "update_comments c w f d =
    (let new = upd_new comments_policies c w f (comments d);
         tbl = upd_rows comments_policies c w f (comments d)
     in if \<not> list_all (upd_new_ok comments_policies c) new then Inl RlsViolation
        else if dup_key co_id new tbl then Inl UniqueViolation
        else if \<not> list_all (comments_fk d) new then Inl ForeignKeyViolation
        else Inr (d\<lparr>comments := tbl\<rparr>))"

definition delete_comments :: "uuid option \<Rightarrow> (comment \<Rightarrow> bool) \<Rightarrow> db \<Rightarrow> error + db" where
  "delete_comments c w d =
    Inr (d\<lparr>comments := filter (\<lambda>r. \<not> del_target comments_policies c w r) (comments d)\<rparr>)"

subsection \<open>likes\<close>

definition insert_likes :: "uuid option \<Rightarrow> like \<Rightarrow> db \<Rightarrow> error + db" where
  "insert_likes c r d =
    (if \<not> check_ok likes_policies INSERT c r then Inl RlsViolation
     else if li_id r \<in> set (map li_id (likes d)) then Inl UniqueViolation
     else if (li_post_id r, li_user_id r) \<in> set (map (\<lambda>x. (li_post_id x, li_user_id x)) (likes d))
       then Inl UniqueViolation
     else if \<not> likes_fk d r then Inl ForeignKeyViolation
     else Inr (d\<lparr>likes := likes d @ [r]\<rparr>))"

definition update_likes ::
  "uuid option \<Rightarrow> (like \<Rightarrow> bool) \<Rightarrow> (like \<Rightarrow> like) \<Rightarrow> db \<Rightarrow> error + db" where
  "update_likes c w f d =
    (let new = upd_new likes_policies c w f (likes d);
         tbl = upd_rows likes_policies c w f (likes d)
     in if \<not> list_all (upd_new_ok likes_policies c) new then Inl RlsViolation
        else if dup_key li_id new tbl \<or> dup_key (\<lambda>x. (li_post_id x, li_user_id x)) new tbl
          then Inl UniqueViolation
        else if \<not> list_all (likes_fk d) new then Inl ForeignKeyViolation
        else Inr (d\<lparr>likes := tbl\<rparr>))"

definition delete_likes :: "uuid option \<Rightarrow> (like \<Rightarrow> bool) \<Rightarrow> db \<Rightarrow> error + db" where
  "delete_likes c w d =
    Inr (d\<lparr>likes := filter (\<lambda>r. \<not> del_target likes_policies c w r) (likes d)\<rparr>)"

subsection \<open>follows\<close>

definition insert_follows :: "uuid option \<Rightarrow> follow \<Rightarrow> db \<Rightarrow> error + db" where
  "insert_follows c r d =
    (if \<not> check_ok follows_policies INSERT c r then Inl RlsViolation
     else if \<not> follows_check r then Inl CheckViolation
     else if fo_id r \<in> set (map fo_id (follows d)) then Inl UniqueViolation
     else if (fo_follower_id r, fo_following_id r) \<in>
         set (map (\<lambda>x. (fo_follower_id x, fo_following_id x)) (follows d))
       then Inl UniqueViolation
     else if \<not> follows_fk d r then Inl ForeignKeyViolation
     else Inr (d\<lparr>follows := follows d @ [r]\<rparr>))"

definition update_follows ::
  "uuid option \<Rightarrow> (follow \<Rightarrow> bool) \<Rightarrow> (follow \<Rightarrow> follow) \<Rightarrow> db \<Rightarrow> error + db" where
  "update_follows c w f d =
    (let new = upd_new follows_policies c w f (follows d);
         tbl = upd_rows follows_policies c w f (follows d)
     in if \<not> list_all (upd_new_ok follows_policies c) new then Inl RlsViolation
        else if \<not> list_all follows_check new then Inl CheckViolation
        else if dup_key fo_id new tbl \<or>
            dup_key (\<lambda>x. (fo_follower_id x, fo_following_id x)) new tbl
          then Inl UniqueViolation
        else if \<not> list_all (follows_fk d) new then Inl ForeignKeyViolation
        else Inr (d\<lparr>follows := tbl\<rparr>))"

definition delete_follows :: "uuid option \<Rightarrow> (follow \<Rightarrow> bool) \<Rightarrow> db \<Rightarrow> error + db" where
  "delete_follows c w d =
    Inr (d\<lparr>follows := filter (\<lambda>r. \<not> del_target follows_policies c w r) (follows d)\<rparr>)"

subsection \<open>friendships\<close>

definition insert_friendships :: "uuid option \<Rightarrow> friendship \<Rightarrow> db \<Rightarrow> error + db" where
  "insert_friendships c r d =
    (if \<not> check_ok friendships_policies INSERT c r then Inl RlsViolation
     else if \<not> friendships_check r then Inl CheckViolation
     else if fr_id r \<in> set (map fr_id (friendships d)) then Inl UniqueViolation
     else if \<not> friendships_fk d r then Inl ForeignKeyViolation
     else Inr (d\<lparr>friendships := friendships d @ [r]\<rparr>))"

definition update_friendships ::
  "uuid option \<Rightarrow> (friendship \<Rightarrow> bool) \<Rightarrow> (friendship \<Rightarrow> friendship) \<Rightarrow> db \<Rightarrow> error + db" where
  "update_friendships c w f d =
    (let new = upd_new friendships_policies c w f (friendships d);
         tbl = upd_rows friendships_policies c w f (friendships d)
     in if \<not> list_all (upd_new_ok friendships_policies c) new then Inl RlsViolation
        else if \<not> list_all friendships_check new then Inl CheckViolation
        else if dup_key fr_id new tbl then Inl UniqueViolation
        else if \<not> list_all (friendships_fk d) new then Inl ForeignKeyViolation
        else Inr (d\<lparr>friendships := tbl\<rparr>))"

definition delete_friendships :: "uuid option \<Rightarrow> (friendship \<Rightarrow> bool) \<Rightarrow> db \<Rightarrow> error + db" where
  "delete_friendships c w d =
    Inr (d\<lparr>friendships :=
      filter (\<lambda>r. \<not> del_target friendships_policies c w r) (friendships d)\<rparr>)"

subsection \<open>Reads\<close>

definition select_profiles :: "uuid option \<Rightarrow> db \<Rightarrow> profile list" where
  "select_profiles c d = select_rows profiles_policies c (profiles d)"

definition select_posts :: "uuid option \<Rightarrow> db \<Rightarrow> post list" where
  "select_posts c d = select_rows posts_policies c (posts d)"

definition select_comments :: "uuid option \<Rightarrow> db \<Rightarrow> comment list" where
  "select_comments c d = select_rows comments_policies c (comments d)"

definition select_likes :: "uuid option \<Rightarrow> db \<Rightarrow> like list" where
  "select_likes c d = select_rows likes_policies c (likes d)"

definition select_follows :: "uuid option \<Rightarrow> db \<Rightarrow> follow list" where
  "select_follows c d = select_rows follows_policies c (follows d)"

definition select_friendships :: "uuid option \<Rightarrow> db \<Rightarrow> friendship list" where
  "select_friendships c d = select_rows friendships_policies c (friendships d)"

subsection \<open>Any statement of the client\<close>

datatype stmt =
    Insert_profiles profile
  | Update_profiles "profile \<Rightarrow> bool" "profile \<Rightarrow> profile"
  | Delete_profiles "profile \<Rightarrow> bool"
  | Insert_posts post
  | Update_posts "post \<Rightarrow> bool" "post \<Rightarrow> post"
  | Delete_posts "post \<Rightarrow> bool"
  | Insert_comments comment
  | Update_comments "comment \<Rightarrow> bool" "comment \<Rightarrow> comment"
  | Delete_comments "comment \<Rightarrow> bool"
  | Insert_likes like
  | Update_likes "like \<Rightarrow> bool" "like \<Rightarrow> like"
  | Delete_likes "like \<Rightarrow> bool"
  | Insert_follows follow
  | Update_follows "follow \<Rightarrow> bool" "follow \<Rightarrow> follow"
  | Delete_follows "follow \<Rightarrow> bool"
  | Insert_friendships friendship
  | Update_friendships "friendship \<Rightarrow> bool" "friendship \<Rightarrow> friendship"
  | Delete_friendships "friendship \<Rightarrow> bool"

fun exec :: "uuid option \<Rightarrow> stmt \<Rightarrow> db \<Rightarrow> error + db" where
  "exec c (Insert_profiles r) d = insert_profiles c r d"
| "exec c (Update_profiles w f) d = update_profiles c w f d"
| "exec c (Delete_profiles w) d = delete_profiles c w d"
| "exec c (Insert_posts r) d = insert_posts c r d"
| "exec c (Update_posts w f) d = update_posts c w f d"
| "exec c (Delete_posts w) d = delete_posts c w d"
| "exec c (Insert_comments r) d = insert_comments c r d"
| "exec c (Update_comments w f) d = update_comments c w f d"
| "exec c (Delete_comments w) d = delete_comments c w d"
| "exec c (Insert_likes r) d = insert_likes c r d"
| "exec c (Update_likes w f) d = update_likes c w f d"
| "exec c (Delete_likes w) d = delete_likes c w d"
| "exec c (Insert_follows r) d = insert_follows c r d"
| "exec c (Update_follows w f) d = update_follows c w f d"
| "exec c (Delete_follows w) d = delete_follows c w d"
| "exec c (Insert_friendships r) d = insert_friendships c r d"
| "exec c (Update_friendships w f) d = update_friendships c w f d"
| "exec c (Delete_friendships w) d = delete_friendships c w d"

text \<open>The store after a statement: a failed statement leaves it as it was.\<close>

fun store_after :: "db \<Rightarrow> error + db \<Rightarrow> db" where
  "store_after d (Inl e) = d"
| "store_after d (Inr d') = d'"

subsection \<open>Deletions that row level security does not filter\<close>

text \<open>
  No policy lets a client delete a profile. A profile goes when the table's owner deletes
  it, or when its user is deleted from \<^verbatim>\<open>auth.users\<close> (\<^verbatim>\<open>profiles.id\<close> references it with
  \<^verbatim>\<open>ON DELETE CASCADE\<close>); the cascades follow.
\<close>

definition delete_profile :: "uuid \<Rightarrow> db \<Rightarrow> db" where
  "delete_profile p d =
    cascade_profiles (map pr_id (filter (\<lambda>r. pr_id r = p) (profiles d)))
      (d\<lparr>profiles := filter (\<lambda>r. pr_id r \<noteq> p) (profiles d)\<rparr>)"

definition delete_auth_user :: "uuid \<Rightarrow> db \<Rightarrow> db" where
  "delete_auth_user u d =
    (if u \<in> set (auth_users d)
     then delete_profile u (d\<lparr>auth_users := filter (\<lambda>x. x \<noteq> u) (auth_users d)\<rparr>)
     else d)"

section \<open>The views\<close>

text \<open>
  The view components pass every intent to the store through the client and keep local
  state. A handler is a function of the signed-in user (\<open>None\<close> when \<^verbatim>\<open>useAuth().user\<close> is
  null; the client sends the same session, so it is the caller at the store), the store
  and the component's state. The client does not throw: a statement's result carries the
  error, and a handler that does not look at it goes on. The values the store fills into
  an inserted row are an argument.
\<close>

record gen =
  g_id :: uuid
  g_now :: timestamptz

text \<open>
  \<^verbatim>\<open>String.prototype.trim\<close> removes the white space and the line terminators of the language
  from both ends: tab, line feed, vertical tab, form feed, carriage return, space,
  no-break space, U+1680, U+2000 to U+200A, the line and paragraph separators, U+202F,
  U+205F, U+3000 and the byte order mark U+FEFF. Each is one code unit.
\<close>

definition is_space :: "nat \<Rightarrow> bool" where
  "is_space u =
    (u \<in> {0x0009, 0x000A, 0x000B, 0x000C, 0x000D, 0x0020, 0x00A0, 0x1680, 0x2028, 0x2029,
           0x202F, 0x205F, 0x3000, 0xFEFF} \<or>
     (0x2000 \<le> u \<and> u \<le> 0x200A))"

definition trim :: "utf16 \<Rightarrow> utf16" where
  "trim s = rev (dropWhile is_space (rev (dropWhile is_space s)))"

text \<open>
  \<^verbatim>\<open>.order('created_at', { ascending })\<close>. The store sorts NULL as larger than every value
  (last when ascending, first when descending). The order among equal keys is the
  store's choice; here rows with equal keys stay in insertion order, in both directions.
\<close>

fun pg_key :: "timestamptz option \<Rightarrow> enat" where
  "pg_key None = \<infinity>"
| "pg_key (Some t) = enat t"

definition order_asc :: "('r \<Rightarrow> timestamptz option) \<Rightarrow> 'r list \<Rightarrow> 'r list" where
  "order_asc col rows = sort_key (\<lambda>r. pg_key (col r)) rows"

definition order_desc :: "('r \<Rightarrow> timestamptz option) \<Rightarrow> 'r list \<Rightarrow> 'r list" where
  "order_desc col rows = rev (sort_key (\<lambda>r. pg_key (col r)) (rev rows))"

text \<open>The embedded resource \<^verbatim>\<open>profiles(*)\<close>: the profile a foreign key column points to.\<close>

definition embed_profile :: "uuid option \<Rightarrow> db \<Rightarrow> uuid \<Rightarrow> profile option" where
  "embed_profile c d i = find (\<lambda>p. pr_id p = i) (select_profiles c d)"

subsection \<open>Post and Feed\<close>

record post_view =
  pv_likes :: "uuid list"
  pv_comments :: "(comment \<times> profile option) list"
  pv_showComments :: bool
  pv_commentText :: utf16
  pv_loading :: bool

record feed_view =
  fe_posts :: "(post \<times> profile option) list"
  fe_loading :: bool

text \<open>
  A load function is modelled by the state it ends in: \<^verbatim>\<open>loading\<close> is set while the request
  runs and cleared at the end.
\<close>

definition loadPosts :: "uuid option \<Rightarrow> db \<Rightarrow> feed_view \<Rightarrow> feed_view" where
  "loadPosts user d v =
    v\<lparr>fe_posts := map (\<lambda>r. (r, embed_profile user d (po_user_id r)))
         (order_desc po_created_at (select_posts user d)),
      fe_loading := False\<rparr>"

definition loadLikes :: "uuid option \<Rightarrow> post \<Rightarrow> db \<Rightarrow> post_view \<Rightarrow> post_view" where
  "loadLikes user post d v =
    v\<lparr>pv_likes := map li_user_id (filter (\<lambda>r. li_post_id r = po_id post) (select_likes user d))\<rparr>"

definition loadComments :: "uuid option \<Rightarrow> post \<Rightarrow> db \<Rightarrow> post_view \<Rightarrow> post_view" where
  "loadComments user post d v =
    v\<lparr>pv_comments := map (\<lambda>r. (r, embed_profile user d (co_user_id r)))
         (order_asc co_created_at
           (filter (\<lambda>r. co_post_id r = po_id post) (select_comments user d)))\<rparr>"

definition handleLike ::
  "uuid option \<Rightarrow> gen \<Rightarrow> post \<Rightarrow> db \<times> post_view \<Rightarrow> db \<times> post_view" where
  "handleLike user g post s =
    (case s of (d, v) \<Rightarrow>
      (case user of
         None \<Rightarrow> (d, v)
       | Some u \<Rightarrow>
           if u \<in> set (pv_likes v)
           then (store_after d
                   (delete_likes user (\<lambda>r. li_post_id r = po_id post \<and> li_user_id r = u) d),
                 v\<lparr>pv_likes := filter (\<lambda>i. i \<noteq> u) (pv_likes v)\<rparr>)
           else (store_after d
                   (insert_likes user
                      \<lparr>li_id = g_id g, li_post_id = po_id post, li_user_id = u,
                       li_created_at = Some (g_now g)\<rparr> d),
                 v\<lparr>pv_likes := pv_likes v @ [u]\<rparr>)))"

definition handleComment ::
  "uuid option \<Rightarrow> gen \<Rightarrow> post \<Rightarrow> db \<times> post_view \<Rightarrow> db \<times> post_view" where
  "handleComment user g post s =
    (case s of (d, v) \<Rightarrow>
      (case user of
         None \<Rightarrow> (d, v)
       | Some u \<Rightarrow>
           if trim (pv_commentText v) = [] \<or> pv_loading v then (d, v)
           else
             (case insert_comments user
                     \<lparr>co_id = g_id g, co_post_id = po_id post, co_user_id = u,
                      co_content = trim (pv_commentText v), co_created_at = Some (g_now g)\<rparr> d of
                Inl e \<Rightarrow> (d, v\<lparr>pv_loading := False\<rparr>)
              | Inr d' \<Rightarrow>
                  (d', (loadComments user post d' (v\<lparr>pv_commentText := []\<rparr>))
                         \<lparr>pv_loading := False\<rparr>))))"

text \<open>\<open>confirmed\<close> is the answer to \<^verbatim>\<open>confirm('Delete this post?')\<close>; \<^verbatim>\<open>onDelete\<close> is the feed's \<^verbatim>\<open>loadPosts\<close>.\<close>

definition handleDeletePost ::
  "uuid option \<Rightarrow> post \<Rightarrow> bool \<Rightarrow> db \<times> feed_view \<Rightarrow> db \<times> feed_view" where
  "handleDeletePost user post confirmed s =
    (case s of (d, v) \<Rightarrow>
      if \<not> confirmed then (d, v)
      else (case delete_posts user (\<lambda>r. po_id r = po_id post) d of
              Inl e \<Rightarrow> (d, v)
            | Inr d' \<Rightarrow> (d', loadPosts user d' v)))"

definition handleDeleteComment ::
  "uuid option \<Rightarrow> post \<Rightarrow> uuid \<Rightarrow> db \<times> post_view \<Rightarrow> db \<times> post_view" where
  "handleDeleteComment user post commentId s =
    (case s of (d, v) \<Rightarrow>
      (case delete_comments user (\<lambda>r. co_id r = commentId) d of
         Inl e \<Rightarrow> (d, v)
       | Inr d' \<Rightarrow> (d', loadComments user post d' v)))"

subsection \<open>CreatePost\<close>

record create_view =
  cv_content :: utf16
  cv_imageUrl :: utf16
  cv_loading :: bool
  cv_showImageInput :: bool

text \<open>
  The result has the store, the form's state, the feed's state (\<^verbatim>\<open>onPostCreated\<close> is the
  feed's \<^verbatim>\<open>loadPosts\<close>) and the alert shown, if any.
\<close>

definition handleSubmit ::
  "uuid option \<Rightarrow> gen \<Rightarrow> db \<times> create_view \<times> feed_view \<Rightarrow>
     db \<times> create_view \<times> feed_view \<times> string option" where
  "handleSubmit user g s =
    (case s of (d, v, fe) \<Rightarrow>
      (case user of
         None \<Rightarrow> (d, v, fe, None)
       | Some u \<Rightarrow>
           if trim (cv_content v) = [] then (d, v, fe, None)
           else
             (case insert_posts user
                     \<lparr>po_id = g_id g, po_user_id = u, po_content = trim (cv_content v),
                      po_image_url = Some (trim (cv_imageUrl v)),
                      po_created_at = Some (g_now g), po_updated_at = Some (g_now g)\<rparr> d of
                Inl e \<Rightarrow> (d, v\<lparr>cv_loading := False\<rparr>, fe, Some ''Failed to create post'')
              | Inr d' \<Rightarrow>
                  (d', v\<lparr>cv_content := [], cv_imageUrl := [], cv_showImageInput := False,
                         cv_loading := False\<rparr>,
                   loadPosts user d' fe, None))))"

subsection \<open>Friends\<close>

datatype tab = Discover | Friends | Following | Requests

record friends_view =
  fv_activeTab :: tab
  fv_users :: "profile list"
  fv_friends :: "profile list"
  fv_following :: "profile list"
  fv_friendRequests :: "(friendship \<times> profile option) list"
  fv_followingIds :: "uuid set"
  fv_friendIds :: "uuid set"
  fv_pendingRequestIds :: "uuid set"
  fv_loading :: bool

definition loadUsers :: "uuid option \<Rightarrow> db \<Rightarrow> friends_view \<Rightarrow> friends_view" where
  "loadUsers user d v =
    (case user of
       None \<Rightarrow> v
     | Some u \<Rightarrow>
         v\<lparr>fv_users := take 20 (order_desc pr_created_at
             (filter (\<lambda>r. pr_id r \<noteq> u) (select_profiles user d)))\<rparr>)"

definition loadFollowing :: "uuid option \<Rightarrow> db \<Rightarrow> friends_view \<Rightarrow> friends_view" where
  "loadFollowing user d v =
    (case user of
       None \<Rightarrow> v
     | Some u \<Rightarrow>
         v\<lparr>fv_followingIds := set (map fo_following_id
             (filter (\<lambda>r. fo_follower_id r = u) (select_follows user d)))\<rparr>)"

definition loadFollowingList :: "uuid option \<Rightarrow> db \<Rightarrow> friends_view \<Rightarrow> friends_view" where
  "loadFollowingList user d v =
    (case user of
       None \<Rightarrow> v
     | Some u \<Rightarrow>
         v\<lparr>fv_following := List.map_filter (\<lambda>r. embed_profile user d (fo_following_id r))
             (filter (\<lambda>r. fo_follower_id r = u) (select_follows user d))\<rparr>)"

definition loadFriends :: "uuid option \<Rightarrow> db \<Rightarrow> friends_view \<Rightarrow> friends_view" where
  "loadFriends user d v =
    (case user of
       None \<Rightarrow> v
     | Some u \<Rightarrow>
         (let data = filter (\<lambda>r. fr_status r = Some ''accepted'' \<and>
                        (fr_user_id_1 r = u \<or> fr_user_id_2 r = u)) (select_friendships user d);
              ids = map (\<lambda>r. if fr_user_id_1 r = u then fr_user_id_2 r else fr_user_id_1 r) data
          in v\<lparr>fv_friends := filter (\<lambda>p. pr_id p \<in> set ids) (select_profiles user d),
               fv_friendIds := set ids\<rparr>))"

definition loadFriendRequests :: "uuid option \<Rightarrow> db \<Rightarrow> friends_view \<Rightarrow> friends_view" where
  "loadFriendRequests user d v =
    (case user of
       None \<Rightarrow> v
     | Some u \<Rightarrow>
         (let received = map (\<lambda>r. (r, embed_profile user d (fr_requested_by r)))
                (filter (\<lambda>r. fr_status r = Some ''pending'' \<and> fr_user_id_2 r = u)
                   (select_friendships user d));
              sent = map fr_user_id_2
                (filter (\<lambda>r. fr_status r = Some ''pending'' \<and> fr_requested_by r = u)
                   (select_friendships user d))
          in v\<lparr>fv_friendRequests := received, fv_pendingRequestIds := set sent\<rparr>))"

definition loadData :: "uuid option \<Rightarrow> db \<Rightarrow> friends_view \<Rightarrow> friends_view" where
  "loadData user d v =
    (let v1 = loadFriendRequests user d (loadFriends user d (loadFollowing user d
                (v\<lparr>fv_loading := True\<rparr>)));
         v2 = (if fv_activeTab v1 = Discover then loadUsers user d v1
               else if fv_activeTab v1 = Following then loadFollowingList user d v1
               else v1)
     in v2\<lparr>fv_loading := False\<rparr>)"

definition handleFollow ::
  "uuid option \<Rightarrow> gen \<Rightarrow> uuid \<Rightarrow> db \<times> friends_view \<Rightarrow> db \<times> friends_view" where
  "handleFollow user g userId s =
    (case s of (d, v) \<Rightarrow>
      (case user of
         None \<Rightarrow> (d, v)
       | Some u \<Rightarrow>
           (let (d', v') =
              (if userId \<in> fv_followingIds v
               then (store_after d
                       (delete_follows user
                          (\<lambda>r. fo_follower_id r = u \<and> fo_following_id r = userId) d),
                     v\<lparr>fv_followingIds := fv_followingIds v - {userId}\<rparr>)
               else (store_after d
                       (insert_follows user
                          \<lparr>fo_id = g_id g, fo_follower_id = u, fo_following_id = userId,
                           fo_created_at = Some (g_now g)\<rparr> d),
                     v\<lparr>fv_followingIds := insert userId (fv_followingIds v)\<rparr>))
            in if fv_activeTab v' = Following then (d', loadFollowingList user d' v')
               else (d', v'))))"

definition handleFriendRequest ::
  "uuid option \<Rightarrow> gen \<Rightarrow> uuid \<Rightarrow> db \<times> friends_view \<Rightarrow> db \<times> friends_view" where
  "handleFriendRequest user g userId s =
    (case s of (d, v) \<Rightarrow>
      (case user of
         None \<Rightarrow> (d, v)
       | Some u \<Rightarrow>
           (case insert_friendships user
                   \<lparr>fr_id = g_id g, fr_user_id_1 = u, fr_user_id_2 = userId,
                    fr_status = Some ''pending'', fr_requested_by = u,
                    fr_created_at = Some (g_now g), fr_updated_at = Some (g_now g)\<rparr> d of
              Inl e \<Rightarrow> (d, v)
            | Inr d' \<Rightarrow> (d', v\<lparr>fv_pendingRequestIds := insert userId (fv_pendingRequestIds v)\<rparr>))))"

definition handleAcceptRequest ::
  "uuid option \<Rightarrow> uuid \<Rightarrow> db \<times> friends_view \<Rightarrow> db \<times> friends_view" where
  "handleAcceptRequest user requestId s =
    (case s of (d, v) \<Rightarrow>
      (let d' = store_after d
                  (update_friendships user (\<lambda>r. fr_id r = requestId)
                     (\<lambda>r. r\<lparr>fr_status := Some ''accepted''\<rparr>) d)
       in (d', loadData user d' v)))"

definition handleRejectRequest ::
  "uuid option \<Rightarrow> uuid \<Rightarrow> db \<times> friends_view \<Rightarrow> db \<times> friends_view" where
  "handleRejectRequest user requestId s =
    (case s of (d, v) \<Rightarrow>
      (let d' = store_after d (delete_friendships user (\<lambda>r. fr_id r = requestId) d)
       in (d', loadData user d' v)))"

subsection \<open>Every operation the views expose\<close>

text \<open>
  The handlers that write to the store, each with the component state it runs in (any
  state: the local state may be stale), and the store after one of them.
\<close>

datatype action =
    HandleLike post post_view
  | HandleComment post post_view
  | HandleDeletePost post bool feed_view
  | HandleDeleteComment post uuid post_view
  | HandleSubmit create_view feed_view
  | HandleFollow uuid friends_view
  | HandleFriendRequest uuid friends_view
  | HandleAcceptRequest uuid friends_view
  | HandleRejectRequest uuid friends_view

fun app_step :: "uuid option \<Rightarrow> gen \<Rightarrow> action \<Rightarrow> db \<Rightarrow> db" where
  "app_step user g (HandleLike post v) d = fst (handleLike user g post (d, v))"
| "app_step user g (HandleComment post v) d = fst (handleComment user g post (d, v))"
| "app_step user g (HandleDeletePost post ok v) d = fst (handleDeletePost user post ok (d, v))"
| "app_step user g (HandleDeleteComment post i v) d = fst (handleDeleteComment user post i (d, v))"
| "app_step user g (HandleSubmit v fe) d = fst (handleSubmit user g (d, v, fe))"
| "app_step user g (HandleFollow i v) d = fst (handleFollow user g i (d, v))"
| "app_step user g (HandleFriendRequest i v) d = fst (handleFriendRequest user g i (d, v))"
| "app_step user g (HandleAcceptRequest i v) d = fst (handleAcceptRequest user i (d, v))"
| "app_step user g (HandleRejectRequest i v) d = fst (handleRejectRequest user i (d, v))"

section \<open>Histories of the store\<close>

text \<open>
  Everything that writes to the store: a statement of a client under any identity (a
  failed one changes nothing), a deletion of a profile by the table's owner, and the
  identity provider adding or deleting a user.
\<close>

datatype event =
    Client "uuid option" stmt
  | Owner_delete_profile uuid
  | Create_auth_user uuid
  | Delete_auth_user uuid

fun step :: "event \<Rightarrow> db \<Rightarrow> db" where
  "step (Client c s) d = store_after d (exec c s d)"
| "step (Owner_delete_profile p) d = delete_profile p d"
| "step (Create_auth_user u) d =
     (if u \<in> set (auth_users d) then d else d\<lparr>auth_users := auth_users d @ [u]\<rparr>)"
| "step (Delete_auth_user u) d = delete_auth_user u d"

fun run :: "event list \<Rightarrow> db \<Rightarrow> db" where
  "run [] d = d"
| "run (e # es) d = run es (step e d)"

text \<open>The statuses the views write: a request is created pending and accepted later.\<close>

definition app_status :: "friendship \<Rightarrow> bool" where
  "app_status r = (fr_status r = Some ''pending'' \<or> fr_status r = Some ''accepted'')"

section \<open>A small store\<close>

text \<open>
  Three users; alice has a post with two comments and a like of bob's, follows bob and has
  sent him a friend request; bob and carol are friends.
\<close>

definition alice :: profile where
  "alice = \<lparr>pr_id = 1, pr_username = ''alice'', pr_full_name = Some [], pr_avatar_url = Some [],
     pr_bio = Some [], pr_created_at = Some 100, pr_updated_at = Some 100\<rparr>"

definition bob :: profile where
  "bob = \<lparr>pr_id = 2, pr_username = ''bob'', pr_full_name = Some [], pr_avatar_url = Some [],
     pr_bio = Some [], pr_created_at = Some 110, pr_updated_at = Some 110\<rparr>"

definition carol :: profile where
  "carol = \<lparr>pr_id = 3, pr_username = ''carol'', pr_full_name = Some [], pr_avatar_url = Some [],
     pr_bio = Some [], pr_created_at = Some 120, pr_updated_at = Some 120\<rparr>"

definition post10 :: post where
  "post10 = \<lparr>po_id = 10, po_user_id = 1, po_content = [104, 105], po_image_url = Some [],
     po_created_at = Some 200, po_updated_at = Some 200\<rparr>"

definition post11 :: post where
  "post11 = \<lparr>po_id = 11, po_user_id = 2, po_content = [108, 117, 110, 99, 104], po_image_url = Some [],
     po_created_at = Some 300, po_updated_at = Some 300\<rparr>"

definition post12 :: post where
  "post12 = \<lparr>po_id = 12, po_user_id = 3, po_content = [98, 121, 101], po_image_url = Some [],
     po_created_at = Some 310, po_updated_at = Some 310\<rparr>"

definition comment30 :: comment where
  "comment30 = \<lparr>co_id = 30, co_post_id = 10, co_user_id = 2, co_content = [50],
     co_created_at = Some 400\<rparr>"

definition comment31 :: comment where
  "comment31 = \<lparr>co_id = 31, co_post_id = 10, co_user_id = 1, co_content = [49],
     co_created_at = Some 350\<rparr>"

definition like40 :: like where
  "like40 = \<lparr>li_id = 40, li_post_id = 10, li_user_id = 2, li_created_at = Some 210\<rparr>"

definition follow50 :: follow where
  "follow50 = \<lparr>fo_id = 50, fo_follower_id = 1, fo_following_id = 2, fo_created_at = Some 220\<rparr>"

definition request20 :: friendship where
  "request20 = \<lparr>fr_id = 20, fr_user_id_1 = 1, fr_user_id_2 = 2, fr_status = Some ''pending'',
     fr_requested_by = 1, fr_created_at = Some 230, fr_updated_at = Some 230\<rparr>"

definition friends21 :: friendship where
  "friends21 = \<lparr>fr_id = 21, fr_user_id_1 = 2, fr_user_id_2 = 3, fr_status = Some ''accepted'',
     fr_requested_by = 2, fr_created_at = Some 240, fr_updated_at = Some 240\<rparr>"

definition db0 :: db where
  "db0 = \<lparr>auth_users = [1, 2, 3], profiles = [alice, bob, carol], posts = [post10, post11],
     comments = [comment30, comment31], likes = [like40], follows = [follow50],
     friendships = [request20, friends21]\<rparr>"

text \<open>A statement no view sends: set the status of friendship 21 back to pending.\<close>

definition revert21 :: stmt where
  "revert21 = Update_friendships (\<lambda>r. fr_id r = 21) (\<lambda>r. r\<lparr>fr_status := Some ''pending''\<rparr>)"

definition gen0 :: gen where
  "gen0 = \<lparr>g_id = 60, g_now = 500\<rparr>"

definition feed_view0 :: feed_view where
  "feed_view0 = \<lparr>fe_posts = [], fe_loading = True\<rparr>"

definition post_view0 :: post_view where
  "post_view0 = \<lparr>pv_likes = [], pv_comments = [], pv_showComments = False,
     pv_commentText = [], pv_loading = False\<rparr>"

definition friends_view0 :: friends_view where
  "friends_view0 = \<lparr>fv_activeTab = Requests, fv_users = [], fv_friends = [], fv_following = [],
     fv_friendRequests = [], fv_followingIds = {}, fv_friendIds = {},
     fv_pendingRequestIds = {}, fv_loading = False\<rparr>"

section \<open>Facts about the policies\<close>

lemmas policy_defs =
  using_ok_def check_ok_def profiles_policies_def posts_policies_def comments_policies_def
  likes_policies_def follows_policies_def friendships_policies_def

lemmas select_defs =
  select_rows_def select_profiles_def select_posts_def select_comments_def select_likes_def
  select_follows_def select_friendships_def

lemmas example_defs =
  db0_def alice_def bob_def carol_def post10_def post11_def post12_def comment30_def
  comment31_def like40_def follow50_def request20_def friends21_def gen0_def post_view0_def
  friends_view0_def feed_view0_def

lemma friendships_select_using:
  "using_ok friendships_policies SELECT c r \<longleftrightarrow>
     c = Some (fr_user_id_1 r) \<or> c = Some (fr_user_id_2 r)"
  by (cases c) (auto simp: policy_defs)

lemma friendships_no_delete_policy: "using_ok friendships_policies DELETE c r = False"
  by (simp add: policy_defs)

lemma delete_friendships_no_effect: "delete_friendships c w d = Inr d"
  by (simp add: delete_friendships_def del_target_def friendships_no_delete_policy)

section \<open>Rejecting a friend request\<close>

text \<open>
  C1. The claim: either participant of a pending friendship can remove the request by
  deleting the row, and the deletion passes the access policies. The migration enables row
  level security on \<^verbatim>\<open>friendships\<close> and gives it policies for \<^verbatim>\<open>SELECT\<close>, \<^verbatim>\<open>INSERT\<close> and \<^verbatim>\<open>UPDATE\<close>
  only, so a \<^verbatim>\<open>DELETE\<close> reaches no row (\<open>delete_friendships_no_effect\<close>). Here bob, the
  recipient of alice's pending request 20, rejects it: the row is still stored, and the
  list of requests that \<^verbatim>\<open>loadData\<close> fetches afterwards still shows it. The same delete sent
  for alice, who made the request, removes nothing either.
\<close>

theorem reject_request_row_remains:
  "friendships db0 = [request20, friends21] \<and>
   friendships (fst (handleRejectRequest (Some 2) 20 (db0, friends_view0))) =
     [request20, friends21] \<and>
   map fst (fv_friendRequests (snd (handleRejectRequest (Some 2) 20 (db0, friends_view0)))) =
     [request20] \<and>
   friendships (fst (handleRejectRequest (Some 1) 20 (db0, friends_view0))) =
     [request20, friends21]"
  by (simp add: handleRejectRequest_def delete_friendships_no_effect loadData_def
      loadFriendRequests_def loadFriends_def loadFollowing_def select_defs policy_defs
      embed_profile_def example_defs)

section \<open>A failed like or follow\<close>

text \<open>
  C3. The claim: when a view's operation fails at the store, the view's state is left as
  it was, and never changed as if the operation had succeeded. \<^verbatim>\<open>handleLike\<close> and
  \<^verbatim>\<open>handleFollow\<close> do not read the result of their statement. Here bob likes a post that
  its author has deleted meanwhile, and alice follows a user whose profile is gone: both
  inserts fail on a foreign key and the store is unchanged, yet bob's view counts his like
  and alice's view shows the user as followed.
\<close>

theorem failed_like_and_follow_change_view:
  "insert_likes (Some 2)
     \<lparr>li_id = g_id gen0, li_post_id = po_id post12, li_user_id = 2,
      li_created_at = Some (g_now gen0)\<rparr> db0 = Inl ForeignKeyViolation \<and>
   fst (handleLike (Some 2) gen0 post12 (db0, post_view0)) = db0 \<and>
   pv_likes post_view0 = [] \<and>
   pv_likes (snd (handleLike (Some 2) gen0 post12 (db0, post_view0))) = [2] \<and>
   insert_follows (Some 1)
     \<lparr>fo_id = g_id gen0, fo_follower_id = 1, fo_following_id = 4,
      fo_created_at = Some (g_now gen0)\<rparr> db0 = Inl ForeignKeyViolation \<and>
   fst (handleFollow (Some 1) gen0 4 (db0, friends_view0)) = db0 \<and>
   fv_followingIds friends_view0 = {} \<and>
   fv_followingIds (snd (handleFollow (Some 1) gen0 4 (db0, friends_view0))) = {4}"
  by (simp add: handleLike_def insert_likes_def likes_fk_def handleFollow_def
      insert_follows_def follows_fk_def follows_check_def policy_defs example_defs)

section \<open>Reading friendships\<close>

text \<open>
  C5. A read of the friendships returns a stored row to a caller exactly when the caller
  is the row's \<^verbatim>\<open>user_id_1\<close> or \<^verbatim>\<open>user_id_2\<close>; anyone else (an anonymous request too) gets no
  such row.
\<close>

theorem friendship_read_iff_participant:
  "r \<in> set (select_friendships c d) \<longleftrightarrow>
     r \<in> set (friendships d) \<and> (c = Some (fr_user_id_1 r) \<or> c = Some (fr_user_id_2 r))"
  by (auto simp: select_friendships_def select_rows_def friendships_select_using)

section \<open>The order of the feed and of the comments\<close>

lemma order_asc_sorted: "sorted (map (\<lambda>r. pg_key (col r)) (order_asc col rows))"
  by (simp add: order_asc_def)

lemma order_desc_sorted:
  "sorted_wrt (\<lambda>a b. pg_key (col b) \<le> pg_key (col a)) (order_desc col rows)"
  unfolding order_desc_def sorted_wrt_rev
  using sorted_sort_key[of "\<lambda>r. pg_key (col r)" "rev rows"] by (simp add: sorted_map)

lemma order_asc_set: "set (order_asc col rows) = set rows"
  by (simp add: order_asc_def)

lemma order_desc_set: "set (order_desc col rows) = set rows"
  by (simp add: order_desc_def)

text \<open>The two orders on the column itself: NULL first and then later before earlier, or
  earlier before later and NULL last.\<close>

lemma order_desc_column:
  "sorted_wrt (\<lambda>a b. case col a of None \<Rightarrow> True
       | Some s \<Rightarrow> (case col b of None \<Rightarrow> False | Some t \<Rightarrow> t \<le> s))
     (order_desc col rows)"
  by (rule sorted_wrt_mono_rel[OF _ order_desc_sorted]) (auto split: option.splits)

lemma order_asc_column:
  "sorted_wrt (\<lambda>a b. case col b of None \<Rightarrow> True
       | Some t \<Rightarrow> (case col a of None \<Rightarrow> False | Some s \<Rightarrow> s \<le> t))
     (order_asc col rows)"
proof -
  have "sorted_wrt (\<lambda>a b. pg_key (col a) \<le> pg_key (col b)) (order_asc col rows)"
    using order_asc_sorted[of col rows] by (simp add: sorted_map)
  then show ?thesis
    by (rule sorted_wrt_mono_rel[rotated]) (auto split: option.splits)
qed

text \<open>
  C9. The feed read returns the posts the caller can see, most recent first: of two posts
  in the feed, the one listed first has the later or the same \<^verbatim>\<open>created_at\<close>. The comment read
  of a post returns its comments, oldest first: of two comments in the list, the one
  listed first has the earlier or the same \<^verbatim>\<open>created_at\<close>. A row whose \<^verbatim>\<open>created_at\<close> is NULL, which
  no view writes, comes before the dated posts in the feed and after the dated comments in
  the list, as the store orders them.
\<close>

theorem feed_descending_comments_ascending:
  "sorted_wrt (\<lambda>a b. case po_created_at a of None \<Rightarrow> True
       | Some s \<Rightarrow> (case po_created_at b of None \<Rightarrow> False | Some t \<Rightarrow> t \<le> s))
     (map fst (fe_posts (loadPosts user d fe))) \<and>
   set (map fst (fe_posts (loadPosts user d fe))) = set (select_posts user d) \<and>
   length (fe_posts (loadPosts user d fe)) = length (select_posts user d) \<and>
   sorted_wrt (\<lambda>a b. case co_created_at b of None \<Rightarrow> True
       | Some t \<Rightarrow> (case co_created_at a of None \<Rightarrow> False | Some s \<Rightarrow> s \<le> t))
     (map fst (pv_comments (loadComments user post d v))) \<and>
   set (map fst (pv_comments (loadComments user post d v))) =
     {r \<in> set (select_comments user d). co_post_id r = po_id post}"
proof -
  have posts: "map fst (fe_posts (loadPosts user d fe)) =
      order_desc po_created_at (select_posts user d)"
    by (simp add: loadPosts_def comp_def)
  have comms: "map fst (pv_comments (loadComments user post d v)) =
      order_asc co_created_at (filter (\<lambda>r. co_post_id r = po_id post) (select_comments user d))"
    by (simp add: loadComments_def comp_def)
  have len: "length (fe_posts (loadPosts user d fe)) = length (select_posts user d)"
    by (simp add: loadPosts_def order_desc_def)
  show ?thesis
    unfolding posts comms
    using order_desc_column[of po_created_at] order_asc_column[of co_created_at] len
    by (auto simp: order_desc_set order_asc_set)
qed

text \<open>
  Alice's feed of three posts stored in the order 10, 12, 11 (created at 200, 310, 300)
  lists them 12, 11, 10; the comments of post 10, stored in the order 30, 31 (created at
  400, 350), are listed 31, 30.
\<close>

theorem feed_descending_comments_ascending_witness:
  "map po_created_at [post10, post12, post11] = [Some 200, Some 310, Some 300] \<and>
   map fst (fe_posts (loadPosts (Some 1) (db0\<lparr>posts := [post10, post12, post11]\<rparr>) feed_view0)) =
     [post12, post11, post10] \<and>
   map co_created_at (comments (db0\<lparr>posts := [post10, post12, post11]\<rparr>)) =
     [Some 400, Some 350] \<and>
   map fst (pv_comments (loadComments (Some 1) post10
     (db0\<lparr>posts := [post10, post12, post11]\<rparr>) post_view0)) = [comment31, comment30]"
  using feed_descending_comments_ascending[of "Some 1" "db0\<lparr>posts := [post10, post12, post11]\<rparr>"
      feed_view0 post10 post_view0]
  by (simp add: loadPosts_def loadComments_def order_desc_def order_asc_def select_defs
      policy_defs embed_profile_def example_defs)

section \<open>Deleting a profile\<close>

text \<open>
  C4. Deleting a stored profile removes every row that references its id: its posts, its
  comments, its likes, the follows it is part of and the friendships it is part of; with
  its posts go the comments and likes on them. Nothing else goes: each table after the
  deletion is the table before without exactly those rows. The deletion is the owner's
  or the identity provider's (\<open>delete_profile\<close>); a client's \<^verbatim>\<open>DELETE\<close> on \<^verbatim>\<open>profiles\<close> has no
  policy.
\<close>

theorem delete_profile_cascades:
  assumes "p \<in> set (map pr_id (profiles d))"
  shows "p \<notin> set (map pr_id (profiles (delete_profile p d))) \<and>
    p \<notin> set (profile_refs (delete_profile p d)) \<and>
    posts (delete_profile p d) = filter (\<lambda>r. po_user_id r \<noteq> p) (posts d) \<and>
    comments (delete_profile p d) =
      filter (\<lambda>r. co_user_id r \<noteq> p \<and>
        co_post_id r \<notin> set (map po_id (filter (\<lambda>x. po_user_id x = p) (posts d)))) (comments d) \<and>
    likes (delete_profile p d) =
      filter (\<lambda>r. li_user_id r \<noteq> p \<and>
        li_post_id r \<notin> set (map po_id (filter (\<lambda>x. po_user_id x = p) (posts d)))) (likes d) \<and>
    follows (delete_profile p d) =
      filter (\<lambda>r. fo_follower_id r \<noteq> p \<and> fo_following_id r \<noteq> p) (follows d) \<and>
    friendships (delete_profile p d) =
      filter (\<lambda>r. fr_user_id_1 r \<noteq> p \<and> fr_user_id_2 r \<noteq> p \<and> fr_requested_by r \<noteq> p)
        (friendships d)"
proof -
  have ids: "set (map pr_id (filter (\<lambda>r. pr_id r = p) (profiles d))) = {p}"
    using assms by auto
  show ?thesis
    unfolding delete_profile_def cascade_profiles_def cascade_posts_def profile_refs_def ids
    by (auto intro!: filter_cong)
qed

text \<open>Deleting alice from the small store leaves bob's post and his friendship with carol.\<close>

theorem delete_profile_cascades_witness:
  "(1::nat) \<in> set (map pr_id (profiles db0)) \<and>
   posts (delete_profile 1 db0) = [post11] \<and>
   comments (delete_profile 1 db0) = [] \<and>
   likes (delete_profile 1 db0) = [] \<and>
   follows (delete_profile 1 db0) = [] \<and>
   friendships (delete_profile 1 db0) = [friends21] \<and>
   1 \<notin> set (profile_refs (delete_profile 1 db0))"
  using delete_profile_cascades[of 1 db0]
  by (simp add: example_defs)

section \<open>Liking a post twice\<close>

lemma insert_likes_duplicate:
  "(li_post_id r, li_user_id r) \<in> set (map (\<lambda>x. (li_post_id x, li_user_id x)) (likes d)) \<Longrightarrow>
   isl (insert_likes c r d)"
  by (simp add: insert_likes_def)

text \<open>
  C6. For a stored post and a stored user: the user's first like of the post (no like of
  that pair is stored, the row's id is new, the user is the caller) is inserted, and after
  it every insert of a like with the same \<^verbatim>\<open>(post_id, user_id)\<close>, by any caller and with any
  id, fails and leaves the store, hence the likes, as it was.
\<close>

theorem duplicate_like_rejected:
  assumes "li_post_id r \<in> set (map po_id (posts d))"
    and "li_user_id r \<in> set (map pr_id (profiles d))"
    and "li_id r \<notin> set (map li_id (likes d))"
    and "(li_post_id r, li_user_id r) \<notin> set (map (\<lambda>x. (li_post_id x, li_user_id x)) (likes d))"
    and "li_post_id r' = li_post_id r" and "li_user_id r' = li_user_id r"
  shows "insert_likes (Some (li_user_id r)) r d = Inr (d\<lparr>likes := likes d @ [r]\<rparr>) \<and>
    isl (insert_likes c r' (d\<lparr>likes := likes d @ [r]\<rparr>)) \<and>
    store_after (d\<lparr>likes := likes d @ [r]\<rparr>) (insert_likes c r' (d\<lparr>likes := likes d @ [r]\<rparr>)) =
      d\<lparr>likes := likes d @ [r]\<rparr>"
proof -
  have first: "insert_likes (Some (li_user_id r)) r d = Inr (d\<lparr>likes := likes d @ [r]\<rparr>)"
    using assms(1-4) by (simp add: insert_likes_def likes_fk_def policy_defs)
  have dup: "isl (insert_likes c r' (d\<lparr>likes := likes d @ [r]\<rparr>))"
    using assms(5,6) by (intro insert_likes_duplicate) simp
  then obtain e where "insert_likes c r' (d\<lparr>likes := likes d @ [r]\<rparr>) = Inl e"
    by (auto simp: isl_def)
  with first dup show ?thesis by simp
qed

text \<open>Carol likes alice's post, then tries again.\<close>

theorem duplicate_like_rejected_witness:
  "insert_likes (Some 3) \<lparr>li_id = 60, li_post_id = 10, li_user_id = 3, li_created_at = Some 500\<rparr> db0 =
     Inr (db0\<lparr>likes := [like40,
       \<lparr>li_id = 60, li_post_id = 10, li_user_id = 3, li_created_at = Some 500\<rparr>]\<rparr>) \<and>
   isl (insert_likes (Some 3)
     \<lparr>li_id = 61, li_post_id = 10, li_user_id = 3, li_created_at = Some 501\<rparr>
     (db0\<lparr>likes := [like40,
       \<lparr>li_id = 60, li_post_id = 10, li_user_id = 3, li_created_at = Some 500\<rparr>]\<rparr>))"
  using duplicate_like_rejected[of
     "\<lparr>li_id = 60, li_post_id = 10, li_user_id = 3, li_created_at = Some 500\<rparr>" db0
     "\<lparr>li_id = 61, li_post_id = 10, li_user_id = 3, li_created_at = Some 501\<rparr>" "Some 3"]
  by (simp add: example_defs)

section \<open>Following oneself\<close>

lemmas stmt_defs =
  insert_profiles_def update_profiles_def delete_profiles_def
  insert_posts_def update_posts_def delete_posts_def
  insert_comments_def update_comments_def delete_comments_def
  insert_likes_def update_likes_def delete_likes_def
  insert_follows_def update_follows_def delete_follows_def
  insert_friendships_def update_friendships_def delete_friendships_def

lemma follows_no_update_policy: "using_ok follows_policies UPDATE c r = False"
  by (simp add: policy_defs)

lemma update_follows_rows: "upd_rows follows_policies c w f rows = rows"
  by (simp add: upd_rows_def upd_target_def follows_no_update_policy)

lemma list_all_filter_keep: "list_all P xs \<Longrightarrow> list_all P (filter Q xs)"
  by (induction xs) auto

lemma cascade_profiles_follows:
  "list_all P (follows d) \<Longrightarrow> list_all P (follows (cascade_profiles ids d))"
  by (simp add: cascade_profiles_def cascade_posts_def list_all_filter_keep)

lemma exec_follows_check:
  "list_all follows_check (follows d) \<Longrightarrow>
   list_all follows_check (follows (store_after d (exec c s d)))"
  by (cases s)
    (auto simp: stmt_defs Let_def update_follows_rows cascade_profiles_follows
      cascade_posts_def list_all_filter_keep)

lemma step_follows_check:
  "list_all follows_check (follows d) \<Longrightarrow> list_all follows_check (follows (step e d))"
  by (cases e)
    (auto simp: exec_follows_check delete_profile_def delete_auth_user_def
      cascade_profiles_follows)

lemma run_follows_check:
  "list_all follows_check (follows d) \<Longrightarrow> list_all follows_check (follows (run es d))"
  by (induction es arbitrary: d) (auto simp: step_follows_check)

text \<open>
  C7. An insert of a follow whose \<^verbatim>\<open>follower_id\<close> and \<^verbatim>\<open>following_id\<close> are the same id fails
  for every caller, on every store and whatever the other columns, and the store stays as
  it was. And no history puts such a row into the table: if no stored follow has
  \<^verbatim>\<open>follower_id = following_id\<close> (as in the empty table the migration creates), then none has
  after any sequence of client statements, owner deletions and changes of \<^verbatim>\<open>auth.users\<close>.
\<close>

theorem no_self_follow:
  "isl (insert_follows c
     \<lparr>fo_id = i, fo_follower_id = x, fo_following_id = x, fo_created_at = t\<rparr> d) \<and>
   store_after d (insert_follows c
     \<lparr>fo_id = i, fo_follower_id = x, fo_following_id = x, fo_created_at = t\<rparr> d) = d \<and>
   (list_all (\<lambda>r. fo_follower_id r \<noteq> fo_following_id r) (follows d0) \<longrightarrow>
    list_all (\<lambda>r. fo_follower_id r \<noteq> fo_following_id r) (follows (run es d0)))"
proof -
  have "\<exists>e. insert_follows c
      \<lparr>fo_id = i, fo_follower_id = x, fo_following_id = x, fo_created_at = t\<rparr> d = Inl e"
    by (simp add: insert_follows_def follows_check_def)
  moreover have "follows_check = (\<lambda>r. fo_follower_id r \<noteq> fo_following_id r)"
    by (rule ext) (simp add: follows_check_def)
  ultimately show ?thesis
    using run_follows_check[of d0 es] by auto
qed

text \<open>
  Bob tries to follow himself and then follows alice: only the second row is stored.
\<close>

theorem no_self_follow_witness:
  "list_all (\<lambda>r. fo_follower_id r \<noteq> fo_following_id r) (follows db0) \<and>
   isl (insert_follows (Some 2)
     \<lparr>fo_id = 60, fo_follower_id = 2, fo_following_id = 2, fo_created_at = Some 500\<rparr> db0) \<and>
   follows (run
     [Client (Some 2) (Insert_follows
        \<lparr>fo_id = 60, fo_follower_id = 2, fo_following_id = 2, fo_created_at = Some 500\<rparr>),
      Client (Some 2) (Insert_follows
        \<lparr>fo_id = 61, fo_follower_id = 2, fo_following_id = 1, fo_created_at = Some 501\<rparr>)] db0) =
     [follow50, \<lparr>fo_id = 61, fo_follower_id = 2, fo_following_id = 1, fo_created_at = Some 501\<rparr>] \<and>
   list_all (\<lambda>r. fo_follower_id r \<noteq> fo_following_id r) (follows (run
     [Client (Some 2) (Insert_follows
        \<lparr>fo_id = 60, fo_follower_id = 2, fo_following_id = 2, fo_created_at = Some 500\<rparr>),
      Client (Some 2) (Insert_follows
        \<lparr>fo_id = 61, fo_follower_id = 2, fo_following_id = 1, fo_created_at = Some 501\<rparr>)] db0))"
  using no_self_follow[of "Some 2" 60 2 "Some 500" db0 db0
    "[Client (Some 2) (Insert_follows
        \<lparr>fo_id = 60, fo_follower_id = 2, fo_following_id = 2, fo_created_at = Some 500\<rparr>),
      Client (Some 2) (Insert_follows
        \<lparr>fo_id = 61, fo_follower_id = 2, fo_following_id = 1, fo_created_at = Some 501\<rparr>)]"]
  by (simp add: insert_follows_def follows_check_def follows_fk_def policy_defs example_defs)

section \<open>Comments are never updated\<close>

lemma comments_no_update_policy: "using_ok comments_policies UPDATE c r = False"
  by (simp add: policy_defs)

lemma update_comments_no_effect: "update_comments c w f d = Inr d"
  by (simp add: update_comments_def upd_new_def upd_rows_def upd_target_def dup_key_def
      comments_no_update_policy)

lemma exec_comments:
  "subseq (comments (store_after d (exec c s d))) (comments d) \<or>
   (\<exists>r. s = Insert_comments r \<and> comments (store_after d (exec c s d)) = comments d @ [r])"
  by (cases s)
    (auto simp: stmt_defs Let_def update_comments_no_effect[unfolded update_comments_def Let_def]
       cascade_posts_def cascade_profiles_def)

lemma step_comments:
  "subseq (comments (step e d)) (comments d) \<or>
   (\<exists>c r. e = Client c (Insert_comments r) \<and> comments (step e d) = comments d @ [r])"
proof (cases e)
  case (Client c s)
  then show ?thesis using exec_comments[of d c s] by auto
next
  case (Owner_delete_profile p)
  then show ?thesis by (simp add: delete_profile_def cascade_profiles_def cascade_posts_def)
next
  case (Create_auth_user u)
  then show ?thesis by simp
next
  case (Delete_auth_user u)
  then show ?thesis
    by (simp add: delete_auth_user_def delete_profile_def cascade_profiles_def cascade_posts_def)
qed

lemma app_step_comments:
  "subseq (comments (app_step user g a d)) (comments d) \<or>
   (\<exists>r. comments (app_step user g a d) = comments d @ [r] \<and> co_id r = g_id g \<and>
      user = Some (co_user_id r))"
proof (cases a)
  case (HandleLike post v)
  then show ?thesis
    by (auto simp: handleLike_def insert_likes_def delete_likes_def split: option.splits)
next
  case (HandleComment post v)
  then show ?thesis
    by (auto simp: handleComment_def insert_comments_def
        split: option.splits sum.splits if_splits)
next
  case (HandleDeletePost post ok v)
  then show ?thesis
    by (auto simp: handleDeletePost_def delete_posts_def cascade_posts_def)
next
  case (HandleDeleteComment post i v)
  then show ?thesis
    by (auto simp: handleDeleteComment_def delete_comments_def)
next
  case (HandleSubmit v fe)
  then show ?thesis
    by (auto simp: handleSubmit_def insert_posts_def split: option.splits sum.splits if_splits)
next
  case (HandleFollow i v)
  then show ?thesis
    by (auto simp: handleFollow_def insert_follows_def delete_follows_def split: option.splits)
next
  case (HandleFriendRequest t v)
  then show ?thesis
    by (auto simp: handleFriendRequest_def insert_friendships_def
        split: option.splits sum.splits if_splits)
next
  case (HandleAcceptRequest i v)
  then show ?thesis
    by (auto simp: handleAcceptRequest_def update_friendships_def Let_def)
next
  case (HandleRejectRequest i v)
  then show ?thesis
    by (simp add: handleRejectRequest_def delete_friendships_no_effect)
qed

text \<open>
  C8. There is no update path for comments. At the store, an \<^verbatim>\<open>UPDATE\<close> of \<^verbatim>\<open>comments\<close> by any
  caller, the author included, with any filter and payload, changes nothing: the table has
  no \<^verbatim>\<open>UPDATE\<close> policy. Whatever writes to the store (any client statement, an owner's
  deletion, the identity provider) leaves the comments a subsequence of what they were,
  rows deleted and the others untouched and in place, or appends the one row of an insert.
  The same holds for every handler of the views: none changes a stored comment.
\<close>

theorem comments_have_no_update_path:
  "exec c (Update_comments w f) d = Inr d \<and>
   (subseq (comments (step e d)) (comments d) \<or>
    (\<exists>c' r. e = Client c' (Insert_comments r) \<and> comments (step e d) = comments d @ [r])) \<and>
   (subseq (comments (app_step user g a d)) (comments d) \<or>
    (\<exists>r. comments (app_step user g a d) = comments d @ [r] \<and> co_id r = g_id g \<and>
       user = Some (co_user_id r)))"
  using update_comments_no_effect[of c w f d] step_comments[of e d]
    app_step_comments[of user g a d]
  by simp

section \<open>The statuses of a friendship\<close>

lemma app_step_friendships:
  "friendships (app_step user g a d) = friendships d \<or>
   (\<exists>i. friendships (app_step user g a d) =
      upd_rows friendships_policies user (\<lambda>r. fr_id r = i)
        (\<lambda>r. r\<lparr>fr_status := Some ''accepted''\<rparr>) (friendships d)) \<or>
   (\<exists>u t v. user = Some u \<and> a = HandleFriendRequest t v \<and>
      g_id g \<notin> set (map fr_id (friendships d)) \<and>
      friendships (app_step user g a d) = friendships d @
        [\<lparr>fr_id = g_id g, fr_user_id_1 = u, fr_user_id_2 = t,
          fr_status = Some ''pending'', fr_requested_by = u,
          fr_created_at = Some (g_now g), fr_updated_at = Some (g_now g)\<rparr>])"
proof (cases a)
  case (HandleLike post v)
  then show ?thesis
    by (auto simp: handleLike_def insert_likes_def delete_likes_def split: option.splits)
next
  case (HandleComment post v)
  then show ?thesis
    by (auto simp: handleComment_def insert_comments_def
        split: option.splits sum.splits if_splits)
next
  case (HandleDeletePost post ok v)
  then show ?thesis
    by (auto simp: handleDeletePost_def delete_posts_def cascade_posts_def)
next
  case (HandleDeleteComment post i v)
  then show ?thesis
    by (auto simp: handleDeleteComment_def delete_comments_def)
next
  case (HandleSubmit v fe)
  then show ?thesis
    by (auto simp: handleSubmit_def insert_posts_def split: option.splits sum.splits if_splits)
next
  case (HandleFollow i v)
  then show ?thesis
    by (auto simp: handleFollow_def insert_follows_def delete_follows_def split: option.splits)
next
  case (HandleFriendRequest t v)
  then show ?thesis
    by (auto simp: handleFriendRequest_def insert_friendships_def
        split: option.splits sum.splits if_splits)
next
  case (HandleAcceptRequest i v)
  then show ?thesis
    by (auto simp: handleAcceptRequest_def update_friendships_def Let_def)
next
  case (HandleRejectRequest i v)
  then show ?thesis
    by (simp add: handleRejectRequest_def delete_friendships_no_effect)
qed

lemma accept_accepted:
  "fr_status r = Some ''accepted'' \<Longrightarrow> r\<lparr>fr_status := Some ''accepted''\<rparr> = r"
  by (cases r) simp

lemma accept_keeps_status:
  "list_all app_status xs \<Longrightarrow>
   list_all app_status (map (\<lambda>r. if P r then r\<lparr>fr_status := Some ''accepted''\<rparr> else r) xs)"
  by (induction xs) (auto simp: app_status_def)

text \<open>
  C2, as stated: no operation the system exposes changes the status of an accepted
  friendship. The \<^verbatim>\<open>UPDATE\<close> policy of \<^verbatim>\<open>friendships\<close> asks only that the caller is a participant,
  before and after; it does not look at the status. So the store takes bob's update of his
  accepted friendship 21 with carol back to pending.
\<close>

theorem accepted_friendship_reverted_by_update:
  "friendships db0 = [request20, friends21] \<and>
   fr_status friends21 = Some ''accepted'' \<and>
   exec (Some 2) revert21 db0 =
     Inr (db0\<lparr>friendships := [request20, friends21\<lparr>fr_status := Some ''pending''\<rparr>]\<rparr>)"
  by (simp add: revert21_def update_friendships_def Let_def upd_new_def upd_rows_def
      upd_target_def upd_new_ok_def dup_key_def friendships_check_def friendships_fk_def
      policy_defs example_defs)

text \<open>
  \<^verbatim>\<open>handleAcceptRequest\<close> filters on the id only, not on the status. On a row that is stored
  as rejected, which no handler writes but a participant's own statement can, it writes
  accepted as well.
\<close>

lemma accept_request_ignores_status:
  "friendships (app_step (Some 2) gen0 (HandleAcceptRequest 21 friends_view0)
     (db0\<lparr>friendships := [request20, friends21\<lparr>fr_status := Some ''rejected''\<rparr>]\<rparr>)) =
   [request20, friends21]"
  by (simp add: handleAcceptRequest_def update_friendships_def Let_def upd_new_def upd_rows_def
      upd_target_def upd_new_ok_def dup_key_def friendships_check_def friendships_fk_def
      policy_defs example_defs)

text \<open>
  C2, amended to the handlers of the views, the only code that sends statements. For any
  handler, run by any user in any component state, on any store:
  \<^item> a friendship whose status is accepted stays stored, in its place and unchanged;
  \<^item> every friendship stored afterwards is a row that was stored before, unchanged, or a
    row that was stored before and was not accepted, now with the status accepted and
    nothing else changed, or a new pending row under a new id;
  \<^item> if all stored friendships are pending or accepted (the statuses the views write),
    they are so afterwards, and then the row that became accepted was pending.

  So the only status change the views make on the rows they write is pending to accepted,
  and they neither change nor remove an accepted friendship. Whether a pending request
  can be removed is left open here (C1).
\<close>

theorem friendship_status_transitions:
  "(\<forall>i < length (friendships d). fr_status (friendships d ! i) = Some ''accepted'' \<longrightarrow>
      i < length (friendships (app_step user g a d)) \<and>
      friendships (app_step user g a d) ! i = friendships d ! i) \<and>
   (\<forall>r' \<in> set (friendships (app_step user g a d)).
      r' \<in> set (friendships d) \<or>
      (\<exists>r \<in> set (friendships d). fr_status r \<noteq> Some ''accepted'' \<and>
         (app_status r \<longrightarrow> fr_status r = Some ''pending'') \<and>
         r' = r\<lparr>fr_status := Some ''accepted''\<rparr>) \<or>
      (fr_id r' \<notin> set (map fr_id (friendships d)) \<and> fr_status r' = Some ''pending'')) \<and>
   (list_all app_status (friendships d) \<longrightarrow>
      list_all app_status (friendships (app_step user g a d)))"
proof -
  consider
    (same) "friendships (app_step user g a d) = friendships d"
  | (upd) j where "friendships (app_step user g a d) =
      upd_rows friendships_policies user (\<lambda>r. fr_id r = j)
        (\<lambda>r. r\<lparr>fr_status := Some ''accepted''\<rparr>) (friendships d)"
  | (new) r where "friendships (app_step user g a d) = friendships d @ [r]"
      "fr_status r = Some ''pending''" "fr_id r \<notin> set (map fr_id (friendships d))"
    using app_step_friendships[of user g a d] by auto
  then show ?thesis
  proof cases
    case same
    then show ?thesis by simp
  next
    case upd
    have kept: "i < length (friendships (app_step user g a d)) \<and>
        friendships (app_step user g a d) ! i = friendships d ! i"
      if "i < length (friendships d)" "fr_status (friendships d ! i) = Some ''accepted''" for i
      using that by (simp add: upd upd_rows_def accept_accepted)
    have rows: "r' \<in> set (friendships d) \<or>
       (\<exists>r \<in> set (friendships d). fr_status r \<noteq> Some ''accepted'' \<and>
          (app_status r \<longrightarrow> fr_status r = Some ''pending'') \<and>
          r' = r\<lparr>fr_status := Some ''accepted''\<rparr>)"
      if "r' \<in> set (friendships (app_step user g a d))" for r'
    proof -
      from that obtain r where r: "r \<in> set (friendships d)"
        and r': "r' = r \<or> r' = r\<lparr>fr_status := Some ''accepted''\<rparr>"
        by (auto simp: upd upd_rows_def split: if_splits)
      show ?thesis
      proof (cases "fr_status r = Some ''accepted''")
        case True
        with r r' show ?thesis by (auto simp: accept_accepted)
      next
        case False
        with r r' show ?thesis by (auto simp: app_status_def)
      qed
    qed
    have inv: "list_all app_status (friendships (app_step user g a d))"
      if "list_all app_status (friendships d)"
      unfolding upd upd_rows_def using that by (rule accept_keeps_status)
    from kept rows inv show ?thesis by blast
  next
    case new
    then show ?thesis by (auto simp: app_status_def nth_append)
  qed
qed

text \<open>
  Bob accepts alice's request 20: it becomes accepted, and his accepted friendship 21
  stays as it is, also when he (or carol) sends accept or reject for it.
\<close>

theorem friendship_status_transitions_witness:
  "friendships db0 = [request20, friends21] \<and>
   fr_status request20 = Some ''pending'' \<and>
   fr_status friends21 = Some ''accepted'' \<and>
   list_all app_status (friendships db0) \<and>
   friendships (app_step (Some 2) gen0 (HandleAcceptRequest 20 friends_view0) db0) =
     [request20\<lparr>fr_status := Some ''accepted''\<rparr>, friends21] \<and>
   friendships (app_step (Some 2) gen0 (HandleAcceptRequest 20 friends_view0) db0) ! 1 =
     friendships db0 ! 1 \<and>
   list_all app_status
     (friendships (app_step (Some 2) gen0 (HandleAcceptRequest 20 friends_view0) db0)) \<and>
   friendships (app_step (Some 3) gen0 (HandleRejectRequest 21 friends_view0) db0) =
     [request20, friends21]"
  using friendship_status_transitions[of db0 "Some 2" gen0
      "HandleAcceptRequest 20 friends_view0"]
  by (simp add: app_status_def handleAcceptRequest_def update_friendships_def Let_def
      handleRejectRequest_def delete_friendships_no_effect
      upd_new_def upd_rows_def upd_target_def upd_new_ok_def dup_key_def friendships_check_def
      friendships_fk_def policy_defs example_defs)

section \<open>The direction of a friend request\<close>

text \<open>
  C10. A friendship row that a handler of the views adds to the store (a row whose id was
  not stored before) comes from \<^verbatim>\<open>handleFriendRequest\<close>, is pending, and has the calling user
  as \<^verbatim>\<open>user_id_1\<close> and as \<^verbatim>\<open>requested_by\<close> and the recipient as \<^verbatim>\<open>user_id_2\<close>. The requests that
  \<^verbatim>\<open>loadFriendRequests\<close> lists for a user are exactly the stored pending rows whose \<^verbatim>\<open>user_id_2\<close>
  is the user. Hence a row whose \<^verbatim>\<open>user_id_1\<close> is the user (and so, by the table's check, whose
  \<^verbatim>\<open>user_id_2\<close> is someone else) is never in the user's list.
\<close>

theorem friend_request_direction:
  "(\<forall>r \<in> set (friendships (app_step user g a d)).
      fr_id r \<in> set (map fr_id (friendships d)) \<or>
      (user = Some (fr_user_id_1 r) \<and> fr_requested_by r = fr_user_id_1 r \<and>
       fr_status r = Some ''pending'' \<and> (\<exists>v. a = HandleFriendRequest (fr_user_id_2 r) v))) \<and>
   map fst (fv_friendRequests (loadFriendRequests (Some u) d' v)) =
     filter (\<lambda>r. fr_status r = Some ''pending'' \<and> fr_user_id_2 r = u) (friendships d') \<and>
   (fr_user_id_1 r = u \<and> fr_user_id_1 r \<noteq> fr_user_id_2 r \<longrightarrow>
      r \<notin> set (map fst (fv_friendRequests (loadFriendRequests (Some u) d' v))))"
proof -
  have created: "\<forall>r \<in> set (friendships (app_step user g a d)).
      fr_id r \<in> set (map fr_id (friendships d)) \<or>
      (user = Some (fr_user_id_1 r) \<and> fr_requested_by r = fr_user_id_1 r \<and>
       fr_status r = Some ''pending'' \<and> (\<exists>v. a = HandleFriendRequest (fr_user_id_2 r) v))"
    using app_step_friendships[of user g a d]
    by (auto simp: upd_rows_def)
  have listed: "map fst (fv_friendRequests (loadFriendRequests (Some u) d' v)) =
     filter (\<lambda>r. fr_status r = Some ''pending'' \<and> fr_user_id_2 r = u) (friendships d')"
    by (auto simp: loadFriendRequests_def Let_def comp_def select_friendships_def select_rows_def
        friendships_select_using intro!: filter_cong)
  show ?thesis
    unfolding listed using created by auto
qed

text \<open>
  Alice asks carol: the new row has alice as \<^verbatim>\<open>user_id_1\<close>. Carol instead stores a request to
  alice with alice as \<^verbatim>\<open>user_id_1\<close>, which the policies admit: alice's list does not show it.
\<close>

theorem friend_request_direction_witness:
  "friendships (app_step (Some 1) gen0 (HandleFriendRequest 3 friends_view0) db0) =
     [request20, friends21,
      \<lparr>fr_id = 60, fr_user_id_1 = 1, fr_user_id_2 = 3, fr_status = Some ''pending'',
       fr_requested_by = 1, fr_created_at = Some 500, fr_updated_at = Some 500\<rparr>] \<and>
   insert_friendships (Some 3)
     \<lparr>fr_id = 61, fr_user_id_1 = 1, fr_user_id_2 = 3, fr_status = Some ''pending'',
      fr_requested_by = 3, fr_created_at = Some 500, fr_updated_at = Some 500\<rparr> db0 =
   Inr (db0\<lparr>friendships := [request20, friends21,
     \<lparr>fr_id = 61, fr_user_id_1 = 1, fr_user_id_2 = 3, fr_status = Some ''pending'',
      fr_requested_by = 3, fr_created_at = Some 500, fr_updated_at = Some 500\<rparr>]\<rparr>) \<and>
   fv_friendRequests (loadFriendRequests (Some 1)
     (db0\<lparr>friendships := [request20, friends21,
       \<lparr>fr_id = 61, fr_user_id_1 = 1, fr_user_id_2 = 3, fr_status = Some ''pending'',
        fr_requested_by = 3, fr_created_at = Some 500, fr_updated_at = Some 500\<rparr>]\<rparr>)
     friends_view0) = []"
  using friend_request_direction[of "Some 1" gen0 "HandleFriendRequest 3 friends_view0" db0 1
     "db0\<lparr>friendships := [request20, friends21,
       \<lparr>fr_id = 61, fr_user_id_1 = 1, fr_user_id_2 = 3, fr_status = Some ''pending'',
        fr_requested_by = 3, fr_created_at = Some 500, fr_updated_at = Some 500\<rparr>]\<rparr>"
     friends_view0
     "\<lparr>fr_id = 61, fr_user_id_1 = 1, fr_user_id_2 = 3, fr_status = Some ''pending'',
      fr_requested_by = 3, fr_created_at = Some 500, fr_updated_at = Some 500\<rparr>"]
  by (simp add: insert_friendships_def friendships_check_def friendships_fk_def
      handleFriendRequest_def loadFriendRequests_def select_defs embed_profile_def
      policy_defs example_defs)

end
